theory Spec2Isabelle
  imports Complex_Main "HOL-Library.Sublist"
begin

section \<open>Strings and character classes\<close>

text \<open>
  A Python \<open>str\<close> is modelled as a \<open>string\<close> whose characters are read as the code
  points U+0000 to U+00FF. The classes below are the restrictions to that range of
  \<open>str.isspace\<close> (also the regex class \<open>\s\<close>), of the regex class \<open>\d\<close> and of the
  regex class \<open>\w\<close> (alphanumeric or underscore), and \<open>py_lower\<close> is \<open>str.lower\<close>.
\<close>

definition isspace :: "char \<Rightarrow> bool" where
  "isspace c = (c \<in> set [CHR 0x09, CHR 0x0A, CHR 0x0B, CHR 0x0C, CHR 0x0D,
                          CHR 0x1C, CHR 0x1D, CHR 0x1E, CHR 0x1F, CHR '' '', CHR 0x85, CHR 0xA0])"

definition isdigit :: "char \<Rightarrow> bool" where
  "isdigit c = (c \<in> set ''0123456789'')"

definition isword :: "char \<Rightarrow> bool" where
  "isword c = (let n = (of_char c :: nat) in
     (48 \<le> n \<and> n \<le> 57) \<or> (65 \<le> n \<and> n \<le> 90) \<or> n = 95 \<or> (97 \<le> n \<and> n \<le> 122) \<or>
     n \<in> {170, 178, 179, 181, 185, 186, 188, 189, 190} \<or>
     (192 \<le> n \<and> n \<le> 214) \<or> (216 \<le> n \<and> n \<le> 246) \<or> 248 \<le> n)"

definition lower_char :: "char \<Rightarrow> char" where
  "lower_char c = (let n = (of_char c :: nat) in
     if (65 \<le> n \<and> n \<le> 90) \<or> (192 \<le> n \<and> n \<le> 214) \<or> (216 \<le> n \<and> n \<le> 222)
     then char_of (n + 32) else c)"

definition py_lower :: "string \<Rightarrow> string" where
  "py_lower s = map lower_char s"

text \<open>\<open>s.strip()\<close>: leading and trailing whitespace removed.\<close>

definition strip :: "string \<Rightarrow> string" where
  "strip s = rev (dropWhile isspace (rev (dropWhile isspace s)))"

text \<open>\<open>' '.join(xs)\<close>.\<close>

fun join_space :: "string list \<Rightarrow> string" where
  "join_space [] = []"
| "join_space [x] = x"
| "join_space (x # y # ys) = x @ '' '' @ join_space (y # ys)"

text \<open>\<open>str(n)\<close> for a non-negative integer: its decimal digits.\<close>

definition digit_char :: "nat \<Rightarrow> char" where
  "digit_char n = ''0123456789'' ! n"

function str_nat :: "nat \<Rightarrow> string" where
  "str_nat n = (if n < 10 then [digit_char n] else str_nat (n div 10) @ [digit_char (n mod 10)])"
  by pat_completeness auto
termination
  by (relation "measure id") auto

declare str_nat.simps [simp del]

section \<open>Regular expressions with backtracking\<close>

text \<open>
  The patterns of the source use character classes, sequence, alternation, greedy
  \<open>?\<close> and \<open>*\<close>, one capture group, the word boundary \<open>\b\<close> and a one-character
  look-behind. A matching context is the character before the current position, the
  rest of the input and the text of group 1. \<open>rmatch r c\<close> lists the contexts in which
  a match of \<open>r\<close> started at \<open>c\<close> can end, in the order in which a backtracking matcher
  tries them: greedy choices first. The match the \<open>re\<close> module reports is the first.
\<close>

datatype re =
    Cls "char \<Rightarrow> bool"
  | Seq re re
  | Alt re re
  | Opt re
  | Star "char \<Rightarrow> bool"
  | WordB
  | Behind "char \<Rightarrow> bool"
  | Cap re

type_synonym ctx = "char option \<times> string \<times> string"

fun star :: "(char \<Rightarrow> bool) \<Rightarrow> char option \<Rightarrow> string \<Rightarrow> string \<Rightarrow> ctx list" where
  "star P p [] g = [(p, [], g)]"
| "star P p (x # xs) g =
     (if P x then star P (Some x) xs g @ [(p, x # xs, g)] else [(p, x # xs, g)])"

definition at_boundary :: "char option \<Rightarrow> string \<Rightarrow> bool" where
  "at_boundary p s =
     ((case p of None \<Rightarrow> False | Some c \<Rightarrow> isword c) \<noteq>
      (case s of [] \<Rightarrow> False | c # _ \<Rightarrow> isword c))"

fun rmatch :: "re \<Rightarrow> ctx \<Rightarrow> ctx list" where
  "rmatch (Cls P) (p, s, g) =
     (case s of [] \<Rightarrow> [] | x # xs \<Rightarrow> if P x then [(Some x, xs, g)] else [])"
| "rmatch (Seq a b) c = concat (map (rmatch b) (rmatch a c))"
| "rmatch (Alt a b) c = rmatch a c @ rmatch b c"
| "rmatch (Opt a) c = rmatch a c @ [c]"
| "rmatch (Star P) (p, s, g) = star P p s g"
| "rmatch WordB (p, s, g) = (if at_boundary p s then [(p, s, g)] else [])"
| "rmatch (Behind P) (p, s, g) =
     (case p of None \<Rightarrow> [] | Some x \<Rightarrow> if P x then [(p, s, g)] else [])"
| "rmatch (Cap a) (p, s, g) =
     map (\<lambda>(p', s', _). (p', s', take (length s - length s') s)) (rmatch a (p, s, g))"

text \<open>
  \<open>re.sub(pattern, repl, s)\<close>: scan from the left; at a position where the pattern
  matches, emit the replacement (a function of group 1) and go on after the match;
  elsewhere copy one character. None of the patterns below matches the empty string;
  the last branch (an empty match) is there to make the function total.
\<close>

function re_sub :: "re \<Rightarrow> (string \<Rightarrow> string) \<Rightarrow> char option \<Rightarrow> string \<Rightarrow> string" where
  "re_sub r f p s =
     (case rmatch r (p, s, []) of
        [] \<Rightarrow> (case s of [] \<Rightarrow> [] | x # xs \<Rightarrow> x # re_sub r f (Some x) xs)
      | (p', s', g) # _ \<Rightarrow>
          if length s' < length s then f g @ re_sub r f p' s'
          else f g @ (case s of [] \<Rightarrow> [] | x # xs \<Rightarrow> x # re_sub r f (Some x) xs))"
  by pat_completeness auto
termination
  by (relation "measure (\<lambda>(r, f, p, s). length s)") auto

declare re_sub.simps [simp del]

text \<open>
  \<open>re.split(pattern, s)\<close>: the pieces between the matches; \<open>cur\<close> is the piece being
  collected.
\<close>

function re_split :: "re \<Rightarrow> char option \<Rightarrow> string \<Rightarrow> string \<Rightarrow> string list" where
  "re_split r p cur s =
     (case s of
        [] \<Rightarrow> [cur]
      | x # xs \<Rightarrow>
          (case rmatch r (p, s, []) of
             [] \<Rightarrow> re_split r (Some x) (cur @ [x]) xs
           | (p', s', g) # _ \<Rightarrow>
               if length s' < length s then cur # re_split r p' [] s'
               else re_split r (Some x) (cur @ [x]) xs))"
  by pat_completeness auto
termination
  by (relation "measure (\<lambda>(r, p, cur, s). length s)") auto

declare re_split.simps [simp del]

fun seqs :: "re list \<Rightarrow> re" where
  "seqs [] = Opt (Cls (\<lambda>_. False))"
| "seqs [r] = r"
| "seqs (r # rs) = Seq r (seqs rs)"

definition one_of :: "string \<Rightarrow> re" where
  "one_of cs = Cls (\<lambda>c. c \<in> set cs)"

definition lit :: "string \<Rightarrow> re" where
  "lit s = seqs (map (\<lambda>c. Cls (\<lambda>x. x = c)) s)"

text \<open>A literal under \<open>re.IGNORECASE\<close>.\<close>

definition lit_ci :: "string \<Rightarrow> re" where
  "lit_ci s = seqs (map (\<lambda>c. Cls (\<lambda>x. lower_char x = lower_char c)) s)"

section \<open>Query normalisation (\<open>src/query_utils.py\<close>)\<close>

text \<open>\<open>(\d)\s*[Bb][Hh][Kk]\<close>\<close>

definition re_bhk :: re where
  "re_bhk = seqs [Cap (Cls isdigit), Star isspace, one_of ''Bb'', one_of ''Hh'', one_of ''Kk'']"

text \<open>\<open>(\d)\s*(?:sq\.?\s*ft\.?|sqft)\<close> with \<open>re.IGNORECASE\<close>\<close>

definition re_sqft :: re where
  "re_sqft = seqs [Cap (Cls isdigit), Star isspace,
     Alt (seqs [lit_ci ''sq'', Opt (lit_ci ''.''), Star isspace, lit_ci ''ft'', Opt (lit_ci ''.'')])
         (lit_ci ''sqft'')]"

text \<open>\<open>(\d)\s*[Cc][Rr](?:ores?)?\.?\b\<close>\<close>

definition re_crore :: re where
  "re_crore = seqs [Cap (Cls isdigit), Star isspace, one_of ''Cc'', one_of ''Rr'',
     Opt (seqs [lit ''ore'', Opt (lit ''s'')]), Opt (lit ''.''), WordB]"

text \<open>\<open>(\d)\s*[Ll](?:akhs?)?\.?\b\<close>\<close>

definition re_lakh :: re where
  "re_lakh = seqs [Cap (Cls isdigit), Star isspace, one_of ''Ll'',
     Opt (seqs [lit ''akh'', Opt (lit ''s'')]), Opt (lit ''.''), WordB]"

text \<open>\<open>(?:INR|inr)\s*\<close>\<close>

definition re_inr :: re where
  "re_inr = seqs [Alt (lit ''INR'') (lit ''inr''), Star isspace]"

text \<open>\<open>[Rr][Ss]\.?\s*(\d)\<close>\<close>

definition re_rs :: re where
  "re_rs = seqs [one_of ''Rr'', one_of ''Ss'', Opt (lit ''.''), Star isspace, Cap (Cls isdigit)]"

definition normalize_query :: "string \<Rightarrow> string" where
  "normalize_query query =
    (let text = query;
         text = re_sub re_bhk (\<lambda>g. g @ '' BHK'') None text;
         text = re_sub re_sqft (\<lambda>g. g @ '' sq.ft.'') None text;
         text = re_sub re_crore (\<lambda>g. g @ '' Crores'') None text;
         text = re_sub re_lakh (\<lambda>g. g @ '' Lakhs'') None text;
         text = re_sub re_inr (\<lambda>_. ''Rs. '') None text;
         text = re_sub re_rs (\<lambda>g. ''Rs. '' @ g) None text
     in strip text)"



definition ext :: "string \<Rightarrow> ctx \<Rightarrow> ctx" where
  "ext rest c = (case c of (p, s, g) \<Rightarrow> (p, s @ rest, g))"

section \<open>Chunking (\<open>chunk_text\<close> in \<open>src/document_parsers.py\<close>)\<close>

text \<open>\<open>(?<=[.!?])\s+\<close>\<close>

definition re_sentence :: re where
  "re_sentence = seqs [Behind (\<lambda>c. c \<in> set ''.!?''), Cls isspace, Star isspace]"

text \<open>
  The first two statements of \<open>chunk_text\<close>: split at the sentence boundaries, trim,
  drop the empty pieces.
\<close>

definition split_sentences :: "string \<Rightarrow> string list" where
  "split_sentences text =
     map strip (filter (\<lambda>s. strip s \<noteq> []) (re_split re_sentence None [] text))"

text \<open>
  The inner loop over \<open>reversed(current_sentences)\<close>: \<open>build_overlap overlap rs ov len\<close>
  walks the reversed buffer \<open>rs\<close>, prepends each sentence to \<open>ov\<close> while the budget
  holds and stops (\<open>break\<close>) at the first sentence that would exceed it.
\<close>

fun build_overlap :: "int \<Rightarrow> string list \<Rightarrow> string list \<Rightarrow> int \<Rightarrow> string list \<times> int" where
  "build_overlap overlap [] overlap_sentences overlap_length = (overlap_sentences, overlap_length)"
| "build_overlap overlap (s # rs) overlap_sentences overlap_length =
     (if overlap_length + int (length s) + 1 > overlap
      then (overlap_sentences, overlap_length)
      else build_overlap overlap rs (s # overlap_sentences) (overlap_length + int (length s) + 1))"

text \<open>
  The main loop; the state is \<open>(chunks, current_sentences, current_length)\<close>.
\<close>

fun chunk_loop ::
  "int \<Rightarrow> int \<Rightarrow> string list \<Rightarrow> string list \<times> string list \<times> int \<Rightarrow> string list \<times> string list \<times> int"
where
  "chunk_loop chunk_size overlap [] st = st"
| "chunk_loop chunk_size overlap (sentence # rest) (chunks, current_sentences, current_length) =
     (if current_length + int (length sentence) + 1 > chunk_size \<and> current_sentences \<noteq> []
      then
        (case build_overlap overlap (rev current_sentences) [] 0 of
           (overlap_sentences, overlap_length) \<Rightarrow>
             chunk_loop chunk_size overlap rest
               (chunks @ [join_space current_sentences],
                overlap_sentences @ [sentence],
                overlap_length + int (length sentence) + 1))
      else
        chunk_loop chunk_size overlap rest
          (chunks, current_sentences @ [sentence], current_length + int (length sentence) + 1))"

definition chunk_text :: "string \<Rightarrow> int \<Rightarrow> int \<Rightarrow> string list" where
  "chunk_text text chunk_size overlap =
     (let sentences = split_sentences text in
      if sentences = [] then []
      else
        (case chunk_loop chunk_size overlap sentences ([], [], 0) of
           (chunks, current_sentences, current_length) \<Rightarrow>
             let chunks = (if current_sentences \<noteq> [] then chunks @ [join_space current_sentences]
                           else chunks)
             in filter (\<lambda>c. strip c \<noteq> []) chunks))"

text \<open>
  Bookkeeping for the statements about the chunker. \<open>sentences_length\<close> is the value
  the loop keeps in \<open>current_length\<close>: every sentence counted with one separator.
  \<open>group_loop\<close> is \<open>chunk_loop\<close> recording each finished buffer as the list of its
  sentences instead of their join, and \<open>sentence_groups\<close> adds the last buffer.
\<close>

definition sentences_length :: "string list \<Rightarrow> int" where
  "sentences_length ws = sum_list (map (\<lambda>s. int (length s) + 1) ws)"

fun group_loop ::
  "int \<Rightarrow> int \<Rightarrow> string list \<Rightarrow> string list list \<times> string list \<times> int \<Rightarrow>
   string list list \<times> string list \<times> int"
where
  "group_loop chunk_size overlap [] st = st"
| "group_loop chunk_size overlap (sentence # rest) (groups, current_sentences, current_length) =
     (if current_length + int (length sentence) + 1 > chunk_size \<and> current_sentences \<noteq> []
      then
        (case build_overlap overlap (rev current_sentences) [] 0 of
           (overlap_sentences, overlap_length) \<Rightarrow>
             group_loop chunk_size overlap rest
               (groups @ [current_sentences],
                overlap_sentences @ [sentence],
                overlap_length + int (length sentence) + 1))
      else
        group_loop chunk_size overlap rest
          (groups, current_sentences @ [sentence], current_length + int (length sentence) + 1))"

definition sentence_groups :: "int \<Rightarrow> int \<Rightarrow> string list \<Rightarrow> string list list" where
  "sentence_groups chunk_size overlap sentences =
     (case group_loop chunk_size overlap sentences ([], [], 0) of
        (groups, current_sentences, current_length) \<Rightarrow>
          if current_sentences \<noteq> [] then groups @ [current_sentences] else groups)"

section \<open>Embedding providers (\<open>src/embeddings.py\<close>)\<close>

datatype py_error = ImportError | ValueError | AssertionError | IndexError





section \<open>The in-memory store (\<open>FAISSDatabase\<close> in \<open>src/vector_databases.py\<close>)\<close>

text \<open>
  Vectors have real components (the floating-point rounding of the 32-bit floats is
  not modelled). A two-dimensional array is its number of columns and its rows.
  Metadata is a dictionary with string keys.
\<close>

type_synonym vector = "real list"

record ndarray =
  width :: nat
  rows :: "vector list"

datatype py_value = PyStr string | PyInt int | PyFloat real

type_synonym metadata = "(string \<times> py_value) list"

record stored_chunk =
  chunk_id :: string
  chunk_txt :: string
  chunk_metadata :: metadata

text \<open>
  The index object belongs to the faiss library, which is not part of the repository.
  Its model follows the library's contract for the two exact flat indexes the
  constructor can create: \<open>add\<close> asserts that the array has the index's dimension and
  appends its rows; \<open>search\<close> asserts the query's dimension and \<open>k > 0\<close> and returns the
  \<open>k\<close> best stored vectors with their positions, for \<open>IndexFlatL2\<close> by ascending squared
  Euclidean distance, for \<open>IndexFlatIP\<close> by descending inner product.
\<close>

datatype metric = METRIC_L2 | METRIC_INNER_PRODUCT

record faiss_index =
  index_d :: nat
  index_metric :: metric
  index_xb :: "vector list"

definition ntotal :: "faiss_index \<Rightarrow> nat" where
  "ntotal idx = length (index_xb idx)"

definition l2_sqr :: "vector \<Rightarrow> vector \<Rightarrow> real" where
  "l2_sqr x y = sum_list (map (\<lambda>(a, b). (a - b) * (a - b)) (zip x y))"

definition inner_product :: "vector \<Rightarrow> vector \<Rightarrow> real" where
  "inner_product x y = sum_list (map (\<lambda>(a, b). a * b) (zip x y))"

definition index_add :: "faiss_index \<Rightarrow> ndarray \<Rightarrow> py_error + faiss_index" where
  "index_add idx x =
     (if width x \<noteq> index_d idx then Inl AssertionError
      else Inr (idx\<lparr>index_xb := index_xb idx @ rows x\<rparr>))"

definition index_search :: "faiss_index \<Rightarrow> vector \<Rightarrow> int \<Rightarrow> py_error + (real \<times> nat) list" where
  "index_search idx q k =
     (if length q \<noteq> index_d idx \<or> k \<le> 0 then Inl AssertionError
      else
        (case index_metric idx of
           METRIC_L2 \<Rightarrow>
             Inr (take (nat k) (sort_key fst
                    (zip (map (l2_sqr q) (index_xb idx)) [0..<length (index_xb idx)])))
         | METRIC_INNER_PRODUCT \<Rightarrow>
             Inr (take (nat k) (sort_key (\<lambda>(s, i). - s)
                    (zip (map (inner_product q) (index_xb idx)) [0..<length (index_xb idx)])))))"

record FAISSDatabase =
  dimensions :: nat
  index_type :: string
  chunks :: "stored_chunk list"
  index :: faiss_index

definition FAISSDatabase_init :: "nat \<Rightarrow> string \<Rightarrow> FAISSDatabase" where
  "FAISSDatabase_init dims itype =
     \<lparr>dimensions = dims, index_type = itype, chunks = [],
      index =
        (if itype = ''IndexFlatL2''
         then \<lparr>index_d = dims, index_metric = METRIC_L2, index_xb = []\<rparr>
         else if itype = ''IndexFlatIP''
         then \<lparr>index_d = dims, index_metric = METRIC_INNER_PRODUCT, index_xb = []\<rparr>
         else \<lparr>index_d = dims, index_metric = METRIC_L2, index_xb = []\<rparr>)\<rparr>"

text \<open>
  The loop of \<open>add\<close> over \<open>enumerate(zip(texts, metadata))\<close>: each round appends one
  entry to \<open>self.chunks\<close>; \<open>ids[i]\<close> raises \<open>IndexError\<close> when there are more pairs than
  ids, and the entries appended before stay.
\<close>

fun append_chunks ::
  "string list \<Rightarrow> nat \<Rightarrow> (string \<times> metadata) list \<Rightarrow> stored_chunk list \<Rightarrow>
   py_error option \<times> stored_chunk list"
where
  "append_chunks ids i [] cs = (None, cs)"
| "append_chunks ids i ((t, m) # rest) cs =
     (if i < length ids
      then append_chunks ids (Suc i) rest
             (cs @ [\<lparr>chunk_id = ids ! i, chunk_txt = t, chunk_metadata = m\<rparr>])
      else (Some IndexError, cs))"

text \<open>
  \<open>add\<close> returns the ids, or the exception it raises, together with the store as the
  call leaves it.
\<close>

definition FAISSDatabase_add ::
  "FAISSDatabase \<Rightarrow> ndarray \<Rightarrow> string list \<Rightarrow> metadata list \<Rightarrow>
   (py_error + string list) \<times> FAISSDatabase"
where
  "FAISSDatabase_add db embeddings texts metadatas =
     (let start_id = length (chunks db);
          ids = map (\<lambda>i. ''vec_'' @ str_nat (start_id + i)) [0..<length (rows embeddings)]
      in
        (case append_chunks ids 0 (zip texts metadatas) (chunks db) of
           (Some e, cs) \<Rightarrow> (Inl e, db\<lparr>chunks := cs\<rparr>)
         | (None, cs) \<Rightarrow>
             (case index_add (index db) embeddings of
                Inl e \<Rightarrow> (Inl e, db\<lparr>chunks := cs\<rparr>)
              | Inr idx \<Rightarrow> (Inr ids, db\<lparr>chunks := cs, index := idx\<rparr>))))"

type_synonym search_result = "string \<times> string \<times> metadata \<times> real"

definition FAISSDatabase_search ::
  "FAISSDatabase \<Rightarrow> vector \<Rightarrow> int \<Rightarrow> py_error + search_result list"
where
  "FAISSDatabase_search db query_embedding top_k =
     (if ntotal (index db) = 0 then Inr []
      else
        (case index_search (index db) query_embedding (min top_k (int (ntotal (index db)))) of
           Inl e \<Rightarrow> Inl e
         | Inr hits \<Rightarrow>
             Inr (map (\<lambda>(distance, idx).
                         (chunk_id (chunks db ! idx), chunk_txt (chunks db ! idx),
                          chunk_metadata (chunks db ! idx), 1 / (1 + distance)))
                      (filter (\<lambda>(distance, idx). idx < length (chunks db)) hits))))"







text \<open>
  For the statements about \<open>add\<close>: \<open>new_chunks ids i pairs\<close> are the entries that the loop
  appends for \<open>pairs\<close> when the first of them gets \<open>ids[i]\<close>, and \<open>vec_id k\<close> is the id
  with counter \<open>k\<close>.
\<close>

definition new_chunks :: "string list \<Rightarrow> nat \<Rightarrow> (string \<times> metadata) list \<Rightarrow> stored_chunk list" where
  "new_chunks ids i pairs =
     map (\<lambda>(j, (t, m)). \<lparr>chunk_id = ids ! j, chunk_txt = t, chunk_metadata = m\<rparr>)
       (zip [i..<i + length pairs] pairs)"


section \<open>The upload boundary (\<open>upload_document\<close> in \<open>app.py\<close>, \<open>config.py\<close>)\<close>

datatype http_error = HTTPException nat

definition supported_formats :: "string list" where
  "supported_formats = [''.pdf'', ''.docx'', ''.xlsx'', ''.txt'']"

definition max_file_size_mb :: nat where
  "max_file_size_mb = 50"

definition validate_file_size :: "nat \<Rightarrow> nat \<Rightarrow> bool" where
  "validate_file_size nbytes max_size_mb = (real nbytes / (1024 * 1024) \<le> real max_size_mb)"

text \<open>\<open>s.split(sep)\<close> for a one-character separator.\<close>

fun split_char :: "char \<Rightarrow> string \<Rightarrow> string list" where
  "split_char sep [] = [] # []"
| "split_char sep (c # cs) =
     (if c = sep then [] # split_char sep cs
      else (case split_char sep cs of [] \<Rightarrow> [c] # [] | w # ws \<Rightarrow> (c # w) # ws))"

text \<open>The \<open>extension\<close> entry of \<open>get_file_info\<close>.\<close>

definition get_extension :: "string \<Rightarrow> string" where
  "get_extension filename =
     (if CHR ''.'' \<in> set filename then py_lower (last (split_char CHR ''.'' filename))
      else ''unknown'')"

text \<open>
  The two checks that \<open>upload_document\<close> makes before it parses the file: the size
  (status 413) and the extension (status 400). The result is the accepted extension.
\<close>

definition upload_checks :: "nat \<Rightarrow> string \<Rightarrow> http_error + string" where
  "upload_checks nbytes filename =
     (if \<not> validate_file_size nbytes max_file_size_mb then Inl (HTTPException 413)
      else
        (let extension = ''.'' @ get_extension filename in
         if extension \<notin> set supported_formats then Inl (HTTPException 400)
         else Inr extension))"

section \<open>The query endpoint (\<open>query_knowledge_base\<close> in \<open>app.py\<close>)\<close>

text \<open>
  The collaborators of the endpoint are parameters: the number of vectors the store
  reports, the embedder, the store's search, the answer generation (each of the three
  returns \<open>None\<close> when it raises) and the \<open>similarity_threshold\<close> entry of the
  configuration, which may be absent. The elapsed time in the response is not modelled.
\<close>

record query_env =
  env_total_vectors :: nat
  env_embed :: "string \<Rightarrow> vector option"
  env_search :: "vector \<Rightarrow> int \<Rightarrow> search_result list option"
  env_generate :: "string \<Rightarrow> search_result list \<Rightarrow> string option"
  env_similarity_threshold :: "real option"

record source =
  source_text :: string
  source_filename :: py_value
  source_chunk_index :: py_value
  similarity_score :: real

record query_response =
  response_question :: string
  response_answer :: string
  response_sources :: "source list"

definition dict_get :: "metadata \<Rightarrow> string \<Rightarrow> py_value \<Rightarrow> py_value" where
  "dict_get m k dflt = (case map_of m k of Some v \<Rightarrow> v | None \<Rightarrow> dflt)"

text \<open>\<open>round(x, 3)\<close>: to the nearest thousandth, ties to the even one.\<close>

definition round3 :: "real \<Rightarrow> real" where
  "round3 x =
     (let y = x * 1000; f = \<lfloor>y\<rfloor> in
      if y - of_int f < 1 / 2 then of_int f / 1000
      else if y - of_int f > 1 / 2 then of_int (f + 1) / 1000
      else if even f then of_int f / 1000 else of_int (f + 1) / 1000)"

definition format_source :: "search_result \<Rightarrow> source" where
  "format_source r =
     (case r of (rid, txt, meta, score) \<Rightarrow>
        \<lparr>source_text = (if length txt > 200 then take 200 txt @ ''...'' else txt),
         source_filename = dict_get meta ''filename'' (PyStr ''Unknown''),
         source_chunk_index = dict_get meta ''chunk_index'' (PyInt 0),
         similarity_score = round3 score\<rparr>)"

definition no_answer :: string where
  "no_answer = ''I couldn'' @ [CHR 0x27] @ ''t find relevant information for your query. '' @
     ''Please try rephrasing your question or upload related documents.''"

definition similarity_of :: "search_result \<Rightarrow> real" where
  "similarity_of r = snd (snd (snd r))"

definition query_knowledge_base :: "query_env \<Rightarrow> string \<Rightarrow> int \<Rightarrow> http_error + query_response" where
  "query_knowledge_base env question top_k =
     (if strip question = [] then Inl (HTTPException 400)
      else if env_total_vectors env = 0 then Inl (HTTPException 400)
      else
        (let normalized_question = normalize_query question in
         case env_embed env normalized_question of
           None \<Rightarrow> Inl (HTTPException 500)
         | Some query_embedding \<Rightarrow>
             (case env_search env query_embedding top_k of
                None \<Rightarrow> Inl (HTTPException 500)
              | Some found \<Rightarrow>
                  (let similarity_threshold =
                         (case env_similarity_threshold env of None \<Rightarrow> 0.15 | Some t \<Rightarrow> t);
                       results = filter (\<lambda>r. similarity_of r > similarity_threshold) found
                   in
                     if results = []
                     then Inr \<lparr>response_question = question, response_answer = no_answer,
                               response_sources = []\<rparr>
                     else
                       (case env_generate env question results of
                          None \<Rightarrow> Inl (HTTPException 500)
                        | Some answer \<Rightarrow>
                            Inr \<lparr>response_question = question, response_answer = answer,
                                 response_sources = map format_source results\<rparr>)))))"

section \<open>Evaluation rules\<close>

lemma re_sub_Nil:
  "re_sub r f p [] = (case rmatch r (p, [], []) of [] \<Rightarrow> [] | (p', s', g) # _ \<Rightarrow> f g)"
  by (subst re_sub.simps) (auto split: list.splits)

lemma re_sub_Cons:
  "re_sub r f p (x # xs) =
     (case rmatch r (p, x # xs, []) of
        [] \<Rightarrow> x # re_sub r f (Some x) xs
      | (p', s', g) # _ \<Rightarrow>
          if length s' < Suc (length xs) then f g @ re_sub r f p' s'
          else f g @ x # re_sub r f (Some x) xs)"
  by (subst re_sub.simps) (auto split: list.splits)

lemma re_split_Nil: "re_split r p cur [] = [cur]"
  by (subst re_split.simps) simp

lemma re_split_Cons:
  "re_split r p cur (x # xs) =
     (case rmatch r (p, x # xs, []) of
        [] \<Rightarrow> re_split r (Some x) (cur @ [x]) xs
      | (p', s', g) # _ \<Rightarrow>
          if length s' < Suc (length xs) then cur # re_split r p' [] s'
          else re_split r (Some x) (cur @ [x]) xs)"
  by (subst re_split.simps) (auto split: list.splits)

lemmas class_defs = isspace_def isdigit_def isword_def lower_char_def at_boundary_def

lemmas regex_eval = one_of_def lit_def lit_ci_def class_defs re_sub_Nil re_sub_Cons
  re_split_Nil re_split_Cons


lemmas chunk_eval = chunk_text_def split_sentences_def re_sentence_def strip_def regex_eval

section \<open>Matching inside a longer text\<close>

lemma ext_simp [simp]: "ext rest (p, s, g) = (p, s @ rest, g)"
  by (simp add: ext_def)



















section \<open>Query normalisation: the crore shorthand\<close>




section \<open>Embedding providers: construction\<close>




section \<open>The in-memory store: \<open>add\<close> and its ids\<close>

lemma str_nat_digit: "n < 10 \<Longrightarrow> str_nat n = [digit_char n]"
  by (subst str_nat.simps) simp



lemma new_chunks_Nil [simp]: "new_chunks ids i [] = []"
  by (simp add: new_chunks_def)
















section \<open>The in-memory store: the order of the results of \<open>search\<close>\<close>

text \<open>
  C6. With the index type \<open>IndexFlatIP\<close> the similarities of the results of \<open>search\<close> are
  not non-increasing. The store holds the vectors \<open>[1]\<close> and \<open>[2]\<close>, the query is \<open>[1]\<close>:
  the inner products are 1 and 2, the index returns the larger one first, and
  \<open>1 / (1 + distance)\<close> turns them into the similarities 1/3 and 1/2, in this order.
\<close>

theorem search_inner_product_order:
  "FAISSDatabase_search
     (snd (FAISSDatabase_add (FAISSDatabase_init 1 ''IndexFlatIP'')
        \<lparr>width = 1, rows = [ [1], [2] ]\<rparr> [''a'', ''b''] [ [], [] ]))
     [1] 2 =
   Inr [(''vec_1'', ''b'', [], 1 / 3), (''vec_0'', ''a'', [], 1 / 2)]"
  by (simp add: FAISSDatabase_search_def FAISSDatabase_add_def FAISSDatabase_init_def
      index_add_def index_search_def ntotal_def inner_product_def str_nat_digit digit_char_def)

section \<open>The upload boundary: the allow-list\<close>

lemma split_char_nosep: "sep \<notin> set e \<Longrightarrow> split_char sep e = [e]"
  by (induction e) auto

lemma split_char_length:
  "length (split_char sep s) = Suc (length (filter (\<lambda>c. c = sep) s))"
  by (induction s) (auto split: list.splits)

lemma split_char_last_tail:
  "last (split_char sep (c # s)) = (if sep \<in> set s \<or> c = sep then last (split_char sep s) else c # s)"
proof (cases "c = sep")
  case True
  have "split_char sep s \<noteq> []" using split_char_length [of sep s] by auto
  with True show ?thesis by simp
next
  case False
  show ?thesis
  proof (cases "sep \<in> set s")
    case True
    then have "filter (\<lambda>c. c = sep) s \<noteq> []" by (auto simp: filter_empty_conv)
    then have "length (split_char sep s) \<ge> 2"
      using split_char_length [of sep s] by (cases "filter (\<lambda>c. c = sep) s") auto
    then obtain w w' ws where "split_char sep s = w # w' # ws"
      by (cases "split_char sep s"; cases "tl (split_char sep s)") auto
    with False True show ?thesis by simp
  next
    case nosep: False
    with False show ?thesis by (simp add: split_char_nosep)
  qed
qed

lemma last_split_char:
  "sep \<notin> set e \<Longrightarrow> last (split_char sep (stem @ sep # e)) = e"
proof (induction stem)
  case Nil
  then show ?case by (simp add: split_char_last_tail split_char_nosep del: split_char.simps)
next
  case (Cons c stem)
  then show ?case by (simp add: split_char_last_tail del: split_char.simps)
qed

lemma get_extension_dot:
  "CHR ''.'' \<notin> set e \<Longrightarrow> get_extension (stem @ ''.'' @ e) = py_lower e"
  using last_split_char [of "CHR ''.''" e stem] by (simp add: get_extension_def)

lemma get_extension_nodot:
  "CHR ''.'' \<notin> set filename \<Longrightarrow> get_extension filename = ''unknown''"
  by (simp add: get_extension_def)

lemma supported_extension:
  "''.'' @ get_extension filename \<in> set supported_formats \<longleftrightarrow>
     (\<exists>stem e. filename = stem @ ''.'' @ e \<and> CHR ''.'' \<notin> set e \<and>
        py_lower e \<in> {''pdf'', ''docx'', ''xlsx'', ''txt''})"
proof (cases "CHR ''.'' \<in> set filename")
  case True
  then obtain stem e where f: "filename = stem @ ''.'' @ e" and e: "CHR ''.'' \<notin> set e"
    by (auto dest: split_list_last)
  have g: "get_extension filename = py_lower e"
    unfolding f using e by (rule get_extension_dot)
  have "py_lower e' = py_lower e" if "filename = stem' @ ''.'' @ e'" "CHR ''.'' \<notin> set e'" for stem' e'
    using get_extension_dot [OF that(2), of stem'] g that(1) by simp
  then have "(\<exists>stem e. filename = stem @ ''.'' @ e \<and> CHR ''.'' \<notin> set e \<and>
        py_lower e \<in> {''pdf'', ''docx'', ''xlsx'', ''txt''}) \<longleftrightarrow>
        py_lower e \<in> {''pdf'', ''docx'', ''xlsx'', ''txt''}"
    using f e by metis
  then show ?thesis by (simp add: g supported_formats_def)
next
  case False
  then have "\<not> (\<exists>stem e. filename = stem @ ''.'' @ e)" by auto
  with False show ?thesis by (simp add: get_extension_nodot supported_formats_def)
qed

lemma py_lower_PDF: "py_lower ''PDF'' = ''pdf''"
  by (simp add: py_lower_def lower_char_def char_of_eq_iff)

text \<open>
  C8. The upload boundary accepts a file exactly when it has at most 50 MB and its name
  ends, after its last full stop, in \<open>pdf\<close>, \<open>docx\<close>, \<open>xlsx\<close> or \<open>txt\<close> in any mix of
  upper and lower case; the accepted extension is one of \<open>.pdf\<close>, \<open>.docx\<close>, \<open>.xlsx\<close>,
  \<open>.txt\<close>. A larger file is refused with status 413, and a file of admissible size with
  any other name with status 400.
\<close>

theorem upload_allow_list:
  "((\<exists>x. upload_checks nbytes filename = Inr x) \<longleftrightarrow>
      real nbytes \<le> 50 * 1024 * 1024 \<and>
      (\<exists>stem e. filename = stem @ ''.'' @ e \<and> CHR ''.'' \<notin> set e \<and>
         py_lower e \<in> {''pdf'', ''docx'', ''xlsx'', ''txt''})) \<and>
   (upload_checks nbytes filename = Inr x \<longrightarrow> x \<in> {''.pdf'', ''.docx'', ''.xlsx'', ''.txt''}) \<and>
   (real nbytes > 50 * 1024 * 1024 \<longrightarrow> upload_checks nbytes filename = Inl (HTTPException 413)) \<and>
   (real nbytes \<le> 50 * 1024 * 1024 \<and>
      \<not> (\<exists>stem e. filename = stem @ ''.'' @ e \<and> CHR ''.'' \<notin> set e \<and>
         py_lower e \<in> {''pdf'', ''docx'', ''xlsx'', ''txt''}) \<longrightarrow>
      upload_checks nbytes filename = Inl (HTTPException 400))"
proof -
  have size: "validate_file_size nbytes max_file_size_mb \<longleftrightarrow> real nbytes \<le> 50 * 1024 * 1024"
    by (simp add: validate_file_size_def max_file_size_mb_def field_simps)
  have x: "upload_checks nbytes filename = Inr x \<longrightarrow> x \<in> {''.pdf'', ''.docx'', ''.xlsx'', ''.txt''}"
    by (auto simp: upload_checks_def Let_def supported_formats_def split: if_splits)
  show ?thesis
    using x unfolding upload_checks_def Let_def size supported_extension
    by auto
qed

theorem upload_allow_list_witness:
  "upload_checks 2048 ''Plan.v2.PDF'' = Inr ''.pdf'' \<and> ''.pdf'' \<in> {''.pdf'', ''.docx'', ''.xlsx'', ''.txt''}"
proof -
  have h: "upload_checks 2048 ''Plan.v2.PDF'' = Inr ''.pdf''"
    by (simp add: upload_checks_def validate_file_size_def max_file_size_mb_def get_extension_def
        py_lower_PDF supported_formats_def)
  from upload_allow_list [of 2048 "''Plan.v2.PDF''" "''.pdf''"] h show ?thesis by simp
qed

theorem upload_rejects_xls:
  "upload_checks 2048 ''prices.xls'' = Inl (HTTPException 400)"
  by (simp add: upload_checks_def validate_file_size_def max_file_size_mb_def get_extension_def
      py_lower_def lower_char_def supported_formats_def)

section \<open>The query endpoint: the similarity threshold\<close>

text \<open>
  C5. When the endpoint answers a query, the sources of the response are the search
  results whose similarity is strictly greater than the configured threshold (0.15 when
  the configuration has none), formatted and in the order of the search: a candidate
  whose similarity is at most the threshold is not among them, and every source comes
  from a candidate above the threshold.
\<close>

theorem sources_above_threshold:
  assumes "query_knowledge_base env question top_k = Inr resp"
    and "env_embed env (normalize_query question) = Some v"
    and "env_search env v top_k = Some found"
    and "threshold = (case env_similarity_threshold env of None \<Rightarrow> 0.15 | Some t \<Rightarrow> t)"
  shows "response_sources resp = map format_source (filter (\<lambda>r. threshold < similarity_of r) found) \<and>
         (\<forall>r \<in> set found. similarity_of r \<le> threshold \<longrightarrow>
            r \<notin> set (filter (\<lambda>r. threshold < similarity_of r) found)) \<and>
         (\<forall>s \<in> set (response_sources resp).
            \<exists>r \<in> set found. s = format_source r \<and> threshold < similarity_of r)"
proof -
  have "response_sources resp = map format_source (filter (\<lambda>r. threshold < similarity_of r) found)"
    using assms
    by (auto simp: query_knowledge_base_def Let_def split: if_splits option.splits)
  then show ?thesis by auto
qed

theorem sources_above_threshold_witness:
  "query_knowledge_base
     \<lparr>env_total_vectors = 2,
      env_embed = (\<lambda>_. Some [1]),
      env_search = (\<lambda>_ _. Some [(''vec_0'', ''a'', [], 0.5), (''vec_1'', ''b'', [], 0.15)]),
      env_generate = (\<lambda>_ _. Some ''answer''),
      env_similarity_threshold = None\<rparr> ''flat'' 3 =
     Inr \<lparr>response_question = ''flat'', response_answer = ''answer'',
          response_sources = [format_source (''vec_0'', ''a'', [], 0.5)]\<rparr> \<and>
   response_sources
     \<lparr>response_question = ''flat'', response_answer = ''answer'',
      response_sources = [format_source (''vec_0'', ''a'', [], 0.5)]\<rparr> =
     map format_source (filter (\<lambda>r. 0.15 < similarity_of r)
       [(''vec_0'', ''a'', [], 0.5), (''vec_1'', ''b'', [], 0.15)])"
proof -
  let ?env = "\<lparr>env_total_vectors = 2,
      env_embed = (\<lambda>_. Some [1]),
      env_search = (\<lambda>_ _. Some [(''vec_0'', ''a'', [], 0.5), (''vec_1'', ''b'', [], 0.15)]),
      env_generate = (\<lambda>_ _. Some ''answer''),
      env_similarity_threshold = None\<rparr>"
  let ?resp = "\<lparr>response_question = ''flat'', response_answer = ''answer'',
      response_sources = [format_source (''vec_0'', ''a'', [], 0.5)]\<rparr>"
  have h: "query_knowledge_base ?env ''flat'' 3 = Inr ?resp"
    by (simp add: query_knowledge_base_def similarity_of_def strip_def isspace_def)
  from sources_above_threshold [OF h, of "[1]" _ "0.15"] h
  show ?thesis by simp
qed

end
